theory Spec2Isabelle
  imports Complex_Main
begin

section \<open>Dense tensors\<close>

text \<open>
  The module \<^verbatim>\<open>models/modules.py\<close> computes with torch tensors.  A tensor is
  modelled by its shape, its dtype tag and its entries in row-major order.
  Entries are exact reals: rounding, overflow, infinities and NaN of the
  floating-point dtypes are not represented, and neither are devices, strides
  or autograd records.  The dtype is carried as a tag only.
\<close>

datatype dtype = Float16 | Float32 | Float64

record tensor =
  shape :: "nat list"
  dtype :: dtype
  data :: "real list"

text \<open>
  The exceptions the module can raise.  torch reports every shape or dtype
  mismatch (broadcasting, reshape, view, matmul) as a \<^verbatim>\<open>RuntimeError\<close>, a
  dimension or index out of range as an \<^verbatim>\<open>IndexError\<close>; a missing attribute is
  Python's \<^verbatim>\<open>AttributeError\<close>, a failed tuple unpacking its \<^verbatim>\<open>ValueError\<close>.

  \<open>NonFinite\<close> is not an exception.  A division by zero makes torch continue
  with infinite or NaN entries, which exact real entries cannot represent; the
  model stops there with \<open>NonFinite\<close>, and no theorem below draws a conclusion
  about the program from that outcome.
\<close>

datatype error = AttributeError | RuntimeError | IndexError | ValueError | NonFinite

definition ebind :: "error + 'a \<Rightarrow> ('a \<Rightarrow> error + 'b) \<Rightarrow> error + 'b" where
  "ebind m f = (case m of Inl e \<Rightarrow> Inl e | Inr x \<Rightarrow> f x)"

definition wf :: "tensor \<Rightarrow> bool" where
  "wf t = (length (data t) = prod_list (shape t))"

text \<open>Row-major offset of a multi-index, and the multi-index of an offset.\<close>

fun ravel :: "nat list \<Rightarrow> nat list \<Rightarrow> nat" where
  "ravel (s # sh) (i # idx) = i * prod_list sh + ravel sh idx"
| "ravel _ _ = 0"

fun unravel :: "nat list \<Rightarrow> nat \<Rightarrow> nat list" where
  "unravel [] k = []"
| "unravel (s # sh) k = (k div prod_list sh) # unravel sh (k mod prod_list sh)"

definition tget :: "tensor \<Rightarrow> nat list \<Rightarrow> real" where
  "tget t idx = data t ! ravel (shape t) idx"

definition tab :: "dtype \<Rightarrow> nat list \<Rightarrow> (nat list \<Rightarrow> real) \<Rightarrow> tensor" where
  "tab dt sh f =
     \<lparr>shape = sh, dtype = dt, data = map (\<lambda>k. f (unravel sh k)) [0..<prod_list sh]\<rparr>"

definition full :: "dtype \<Rightarrow> nat list \<Rightarrow> real \<Rightarrow> tensor" where
  "full dt sh v = \<lparr>shape = sh, dtype = dt, data = replicate (prod_list sh) v\<rparr>"

subsection \<open>Type promotion and broadcasting\<close>

fun dtype_rank :: "dtype \<Rightarrow> nat" where
  "dtype_rank Float16 = 0"
| "dtype_rank Float32 = 1"
| "dtype_rank Float64 = 2"

definition promote_types :: "dtype \<Rightarrow> dtype \<Rightarrow> dtype" where
  "promote_types a b = (if dtype_rank a \<le> dtype_rank b then b else a)"

text \<open>
  torch aligns two shapes at their last dimension; two sizes are compatible
  when they are equal or one of them is 1.  \<open>broadcast_rev\<close> works on the
  reversed shapes.
\<close>

fun broadcast_rev :: "nat list \<Rightarrow> nat list \<Rightarrow> nat list option" where
  "broadcast_rev [] ys = Some ys"
| "broadcast_rev xs [] = Some xs"
| "broadcast_rev (x # xs) (y # ys) =
     (if x = y \<or> y = 1 then map_option ((#) x) (broadcast_rev xs ys)
      else if x = 1 then map_option ((#) y) (broadcast_rev xs ys)
      else None)"

definition broadcast_shapes :: "nat list \<Rightarrow> nat list \<Rightarrow> nat list option" where
  "broadcast_shapes a b = map_option rev (broadcast_rev (rev a) (rev b))"

text \<open>
  The index at which an operand of shape \<open>sh\<close> is read for the result index
  \<open>idx\<close>: leading result dimensions the operand lacks are dropped, and a
  dimension of size 1 is read at 0.
\<close>

definition bidx :: "nat list \<Rightarrow> nat list \<Rightarrow> nat list" where
  "bidx sh idx =
     map2 (\<lambda>s i. if s = 1 then 0 else i) sh (drop (length idx - length sh) idx)"

definition binop :: "(real \<Rightarrow> real \<Rightarrow> real) \<Rightarrow> tensor \<Rightarrow> tensor \<Rightarrow> error + tensor" where
  "binop f a b =
     (case broadcast_shapes (shape a) (shape b) of
        None \<Rightarrow> Inl RuntimeError
      | Some sh \<Rightarrow>
          Inr (tab (promote_types (dtype a) (dtype b)) sh
                 (\<lambda>idx. f (tget a (bidx (shape a) idx)) (tget b (bidx (shape b) idx)))))"

definition tadd :: "tensor \<Rightarrow> tensor \<Rightarrow> error + tensor" where
  "tadd = binop (+)"

definition tsub :: "tensor \<Rightarrow> tensor \<Rightarrow> error + tensor" where
  "tsub = binop (-)"

definition tmul :: "tensor \<Rightarrow> tensor \<Rightarrow> error + tensor" where
  "tmul = binop (*)"

text \<open>A tensor combined with a Python number keeps its shape and dtype.\<close>

definition scalar_map :: "(real \<Rightarrow> real) \<Rightarrow> tensor \<Rightarrow> tensor" where
  "scalar_map f t = t\<lparr>data := map f (data t)\<rparr>"

subsection \<open>Shape operations\<close>

text \<open>
  \<^verbatim>\<open>reshape\<close> and \<^verbatim>\<open>view\<close> keep the row-major entries and change the shape; one
  size may be given as \<open>-1\<close> and is then inferred.  (\<^verbatim>\<open>view\<close> also needs
  compatible strides, which this model does not represent.)
\<close>

definition reshape :: "tensor \<Rightarrow> int list \<Rightarrow> error + tensor" where
  "reshape t dims =
     (let n = prod_list (shape t);
          known = prod_list (map nat (filter (\<lambda>d. d \<noteq> - 1) dims))
      in if list_ex (\<lambda>d. d < - 1) dims \<or> 1 < length (filter (\<lambda>d. d = - 1) dims)
         then Inl RuntimeError
         else if list_ex (\<lambda>d. d = - 1) dims
         then (if known = 0 \<or> n mod known \<noteq> 0 then Inl RuntimeError
               else Inr (t\<lparr>shape := map (\<lambda>d. if d = - 1 then n div known else nat d) dims\<rparr>))
         else if known = n then Inr (t\<lparr>shape := map nat dims\<rparr>)
         else Inl RuntimeError)"

definition view :: "tensor \<Rightarrow> int list \<Rightarrow> error + tensor" where
  "view = reshape"

definition unsqueeze :: "tensor \<Rightarrow> nat \<Rightarrow> error + tensor" where
  "unsqueeze t k =
     (if k \<le> length (shape t)
      then Inr (t\<lparr>shape := take k (shape t) @ [1] @ drop k (shape t)\<rparr>)
      else Inl IndexError)"

text \<open>\<^verbatim>\<open>torch.arange(0, n, dtype=dt)\<close>; a negative upper bound is refused.\<close>

definition arange :: "int \<Rightarrow> dtype \<Rightarrow> error + tensor" where
  "arange n dt =
     (if n < 0 then Inl RuntimeError
      else Inr \<lparr>shape = [nat n], dtype = dt, data = map real [0..<nat n]\<rparr>)"

text \<open>\<^verbatim>\<open>torch.sum(t, k)\<close>: dimension \<open>k\<close> is summed out.\<close>

definition tsum :: "tensor \<Rightarrow> nat \<Rightarrow> error + tensor" where
  "tsum t k =
     (if k < length (shape t)
      then Inr (tab (dtype t) (take k (shape t) @ drop (Suc k) (shape t))
                  (\<lambda>idx. sum_list (map (\<lambda>j. tget t (take k idx @ [j] @ drop k idx))
                                     [0..<shape t ! k])))
      else Inl IndexError)"

definition to_dtype :: "tensor \<Rightarrow> dtype \<Rightarrow> tensor" where
  "to_dtype t dt = t\<lparr>dtype := dt\<rparr>"

section \<open>Depth hypotheses: \<^verbatim>\<open>get_depth_values\<close>\<close>

text \<open>
  The argument \<^verbatim>\<open>depth_interval\<close> is dynamically typed: the function tests
  \<^verbatim>\<open>isinstance(depth_interval, float)\<close> and otherwise reads \<^verbatim>\<open>depth_interval.ndim\<close>,
  which a tensor has and a Python \<^verbatim>\<open>int\<close> has not.
\<close>

datatype py_value = PyFloat real | PyInt int | PyTensor tensor

definition get_depth_values :: "tensor \<Rightarrow> int \<Rightarrow> py_value \<Rightarrow> error + tensor" where
  "get_depth_values current_depth n_depths depth_interval =
     (case depth_interval of
        PyFloat i \<Rightarrow>
          (let depth_min = scalar_map (\<lambda>x. x - of_int n_depths / 2 * i) current_depth
           in ebind (arange n_depths (dtype current_depth)) (\<lambda>ar.
              ebind (reshape ar [1, - 1, 1, 1]) (\<lambda>steps.
              tadd depth_min (scalar_map (\<lambda>x. i * x) steps))))
      | PyInt k \<Rightarrow> Inl AttributeError
      | PyTensor t \<Rightarrow>
          ebind (if length (shape t) = 2 then reshape t [- 1, 1, 1, 1]
                 else if length (shape t) = 3 then unsqueeze t 1
                 else Inr t) (\<lambda>di.
          ebind (tsub current_depth (scalar_map (\<lambda>x. of_int n_depths / 2 * x) di)) (\<lambda>depth_min.
          ebind (arange n_depths (dtype current_depth)) (\<lambda>ar.
          ebind (reshape ar [1, - 1, 1, 1]) (\<lambda>steps.
          ebind (tmul di steps) (\<lambda>offsets.
          tadd depth_min offsets))))))"

section \<open>Depth regression: \<^verbatim>\<open>depth_regression\<close>\<close>

definition depth_regression :: "tensor \<Rightarrow> tensor \<Rightarrow> error + tensor" where
  "depth_regression p depth_values =
     ebind (if length (shape depth_values) \<le> 2
            then view depth_values (map int (shape depth_values) @ [1, 1])
            else Inr depth_values) (\<lambda>dv.
     ebind (tmul p dv) (\<lambda>pd.
     ebind (tsum pd 1) (\<lambda>depth.
     Inr (to_dtype depth (dtype dv)))))"

subsection \<open>Shapes and entries after the reshapes\<close>


definition trailing_view :: "tensor \<Rightarrow> tensor" where
  "trailing_view t = (if length (shape t) \<le> 2 then t\<lparr>shape := shape t @ [1, 1]\<rparr> else t)"

definition bget :: "tensor \<Rightarrow> nat list \<Rightarrow> real" where
  "bget t idx = tget t (bidx (shape t) idx)"

section \<open>The attention branch: \<^verbatim>\<open>ConvBnReLU3D\<close> and \<^verbatim>\<open>AttentionBranch\<close>\<close>











section \<open>Homography warping: \<^verbatim>\<open>homo_warp\<close>\<close>

subsection \<open>The tensor operations it uses\<close>

text \<open>
  A Python slice \<^verbatim>\<open>lo:hi\<close> of a dimension of size \<open>n\<close>: negative bounds count
  from the end and both are clipped to the dimension.  The result is the first
  index and the length.
\<close>

definition slice_bounds :: "nat \<Rightarrow> int \<Rightarrow> int option \<Rightarrow> nat \<times> nat" where
  "slice_bounds n lo hi =
     (let clip = (\<lambda>i. if i < 0 then max (int n + i) 0 else min i (int n));
          a = clip lo;
          b = (case hi of None \<Rightarrow> int n | Some h \<Rightarrow> clip h)
      in (nat a, nat (b - a)))"

text \<open>\<^verbatim>\<open>t[:, ..., lo:hi]\<close>, the slice taken in dimension \<open>k\<close>.\<close>

definition slice :: "tensor \<Rightarrow> nat \<Rightarrow> int \<Rightarrow> int option \<Rightarrow> error + tensor" where
  "slice t k lo hi =
     (if k < length (shape t)
      then (let (start, len) = slice_bounds (shape t ! k) lo hi
            in Inr (tab (dtype t) ((shape t)[k := len])
                      (\<lambda>idx. tget t (idx[k := idx ! k + start]))))
      else Inl IndexError)"

text \<open>\<^verbatim>\<open>t[:, ..., i]\<close>, the index taken in dimension \<open>k\<close>, which disappears.\<close>

definition select :: "tensor \<Rightarrow> nat \<Rightarrow> nat \<Rightarrow> error + tensor" where
  "select t k i =
     (if k < length (shape t) \<and> i < shape t ! k
      then Inr (tab (dtype t) (take k (shape t) @ drop (Suc k) (shape t))
                  (\<lambda>idx. tget t (take k idx @ [i] @ drop k idx)))
      else Inl IndexError)"

text \<open>
  \<^verbatim>\<open>t[:, ..., i] = v\<close>: the assignment writes \<open>v\<close>, broadcast to the selected
  part, into \<open>t\<close>.  The model returns the tensor after the write.
\<close>

definition set_select :: "tensor \<Rightarrow> nat \<Rightarrow> nat \<Rightarrow> tensor \<Rightarrow> error + tensor" where
  "set_select t k i v =
     (if k < length (shape t) \<and> i < shape t ! k
      then (let part = take k (shape t) @ drop (Suc k) (shape t)
            in if broadcast_shapes part (shape v) = Some part
               then Inr (tab (dtype t) (shape t)
                      (\<lambda>idx. if idx ! k = i
                              then tget v (bidx (shape v) (take k idx @ drop (Suc k) idx))
                              else tget t idx))
               else Inl RuntimeError)
      else Inl IndexError)"

definition permute :: "tensor \<Rightarrow> nat list \<Rightarrow> error + tensor" where
  "permute t perm =
     (if sort perm = [0..<length (shape t)]
      then Inr (tab (dtype t) (map ((!) (shape t)) perm)
                  (\<lambda>idx. tget t (map (\<lambda>j. idx ! length (takeWhile (\<lambda>q. q \<noteq> j) perm))
                                     [0..<length (shape t)])))
      else Inl RuntimeError)"

text \<open>
  \<^verbatim>\<open>t.expand(sizes)\<close> with as many sizes as \<open>t\<close> has dimensions (the only use in
  this module): \<open>-1\<close> keeps a size, and only a dimension of size 1 can grow.
\<close>

definition expand :: "tensor \<Rightarrow> int list \<Rightarrow> error + tensor" where
  "expand t sizes =
     (if length sizes = length (shape t)
         \<and> list_all2 (\<lambda>s n. s = - 1 \<or> s = int n \<or> (n = 1 \<and> 0 \<le> s)) sizes (shape t)
      then Inr (tab (dtype t) (map2 (\<lambda>s n. if s = - 1 then n else nat s) sizes (shape t))
                  (\<lambda>idx. tget t (bidx (shape t) idx)))
      else Inl RuntimeError)"

definition ones_like :: "tensor \<Rightarrow> tensor" where
  "ones_like t = full (dtype t) (shape t) 1"

text \<open>\<^verbatim>\<open>torch.cat((a, b), k)\<close>.\<close>

definition cat :: "tensor \<Rightarrow> tensor \<Rightarrow> nat \<Rightarrow> error + tensor" where
  "cat a b k =
     (if k < length (shape a) \<and> length (shape a) = length (shape b)
         \<and> (shape a)[k := 0] = (shape b)[k := 0]
      then Inr (tab (promote_types (dtype a) (dtype b))
                  ((shape a)[k := shape a ! k + shape b ! k])
                  (\<lambda>idx. if idx ! k < shape a ! k then tget a idx
                          else tget b (idx[k := idx ! k - shape a ! k])))
      else Inl RuntimeError)"

text \<open>\<^verbatim>\<open>t.repeat(reps)\<close>: the tensor is tiled \<open>reps ! k\<close> times along dimension \<open>k\<close>.\<close>

definition repeat :: "tensor \<Rightarrow> nat list \<Rightarrow> error + tensor" where
  "repeat t reps =
     (if length reps < length (shape t) then Inl RuntimeError
      else (let sh = replicate (length reps - length (shape t)) 1 @ shape t
            in Inr (tab (dtype t) (map2 (*) sh reps)
                      (\<lambda>idx. tget t (drop (length reps - length (shape t))
                                        (map2 (\<lambda>i s. i mod s) idx sh))))))"

text \<open>
  \<^verbatim>\<open>a @ b\<close> for operands of rank at least 2: a matrix product over the last two
  dimensions, the leading (batch) dimensions being broadcast.  The operands
  must have one dtype.  (In this module the left operand has rank at least 3
  and the right one rank 3; torch's vector products for rank 1 are not
  modelled and answered like rank 0.)
\<close>

definition matmul :: "tensor \<Rightarrow> tensor \<Rightarrow> error + tensor" where
  "matmul a b =
     (let ra = length (shape a); rb = length (shape b)
      in if ra < 2 \<or> rb < 2 \<or> dtype a \<noteq> dtype b \<or> shape a ! (ra - 1) \<noteq> shape b ! (rb - 2)
         then Inl RuntimeError
         else (case broadcast_shapes (take (ra - 2) (shape a)) (take (rb - 2) (shape b)) of
                 None \<Rightarrow> Inl RuntimeError
               | Some batch \<Rightarrow>
                   Inr (tab (dtype a) (batch @ [shape a ! (ra - 2), shape b ! (rb - 1)])
                     (\<lambda>idx. \<Sum>l\<leftarrow>[0..<shape a ! (ra - 1)].
                        tget a (bidx (take (ra - 2) (shape a)) (take (length batch) idx)
                                  @ [idx ! length batch, l])
                        * tget b (bidx (take (rb - 2) (shape b)) (take (length batch) idx)
                                    @ [l, idx ! Suc (length batch)])))))"

text \<open>
  Division.  Where a divisor that is used is 0, torch yields an infinite or a
  NaN entry; the model answers \<open>NonFinite\<close>.
\<close>

definition tdiv :: "tensor \<Rightarrow> tensor \<Rightarrow> error + tensor" where
  "tdiv a b =
     (case broadcast_shapes (shape a) (shape b) of
        None \<Rightarrow> Inl RuntimeError
      | Some sh \<Rightarrow>
          if list_ex (\<lambda>k. tget b (bidx (shape b) (unravel sh k)) = 0) [0..<prod_list sh]
          then Inl NonFinite
          else Inr (tab (promote_types (dtype a) (dtype b)) sh
                 (\<lambda>idx. tget a (bidx (shape a) idx) / tget b (bidx (shape b) idx))))"

definition scalar_div :: "tensor \<Rightarrow> real \<Rightarrow> error + tensor" where
  "scalar_div t c =
     (if c = 0 \<and> data t \<noteq> [] then Inl NonFinite
      else Inr (scalar_map (\<lambda>x. x / c) t))"

text \<open>
  \<^verbatim>\<open>kornia.utils.create_meshgrid(H, W, normalized_coordinates=False)\<close>: the grid
  of shape \<open>(1,H,W,2)\<close> that holds at \<open>(0,h,w)\<close> the pixel coordinates \<open>(x,y) = (w,h)\<close>.
\<close>

definition create_meshgrid :: "nat \<Rightarrow> nat \<Rightarrow> tensor" where
  "create_meshgrid H W =
     tab Float32 [1, H, W, 2] (\<lambda>idx. if idx ! 3 = 0 then real (idx ! 2) else real (idx ! 1))"

text \<open>
  \<^verbatim>\<open>F.grid_sample(input, grid, mode='bilinear', padding_mode='zeros',
  align_corners=True)\<close> for a 4-dimensional input \<open>(N,C,H,W)\<close> and a grid
  \<open>(N,H',W',2)\<close>.  A normalised coordinate \<open>c\<close> is the pixel coordinate
  \<open>(c + 1) / 2 * (size - 1)\<close>; the sample is the bilinear interpolation of the four
  surrounding pixels, and a pixel outside the input counts as 0.
\<close>

definition unnormalize :: "real \<Rightarrow> nat \<Rightarrow> real" where
  "unnormalize c n = (c + 1) / 2 * (real n - 1)"

definition pixel :: "tensor \<Rightarrow> nat \<Rightarrow> nat \<Rightarrow> int \<Rightarrow> int \<Rightarrow> real" where
  "pixel input n c yi xi =
     (if 0 \<le> xi \<and> xi < int (shape input ! 3) \<and> 0 \<le> yi \<and> yi < int (shape input ! 2)
      then tget input [n, c, nat yi, nat xi] else 0)"

definition bilinear :: "tensor \<Rightarrow> nat \<Rightarrow> nat \<Rightarrow> real \<Rightarrow> real \<Rightarrow> real" where
  "bilinear input n c ix iy =
     (let x0 = \<lfloor>ix\<rfloor>; y0 = \<lfloor>iy\<rfloor>; x1 = x0 + 1; y1 = y0 + 1
      in pixel input n c y0 x0 * ((of_int x1 - ix) * (of_int y1 - iy))
       + pixel input n c y0 x1 * ((ix - of_int x0) * (of_int y1 - iy))
       + pixel input n c y1 x0 * ((of_int x1 - ix) * (iy - of_int y0))
       + pixel input n c y1 x1 * ((ix - of_int x0) * (iy - of_int y0)))"

definition grid_sample :: "tensor \<Rightarrow> tensor \<Rightarrow> error + tensor" where
  "grid_sample input grid =
     (if length (shape input) \<noteq> 4 \<or> length (shape grid) \<noteq> 4
         \<or> shape input ! 0 \<noteq> shape grid ! 0 \<or> shape grid ! 3 \<noteq> 2
         \<or> shape input ! 2 = 0 \<or> shape input ! 3 = 0 \<or> dtype input \<noteq> dtype grid
      then Inl RuntimeError
      else Inr (tab (dtype input)
                  [shape input ! 0, shape input ! 1, shape grid ! 1, shape grid ! 2]
                  (\<lambda>idx. bilinear input (idx ! 0) (idx ! 1)
                     (unnormalize (tget grid [idx ! 0, idx ! 2, idx ! 3, 0]) (shape input ! 3))
                     (unnormalize (tget grid [idx ! 0, idx ! 2, idx ! 3, 1]) (shape input ! 2)))))"

subsection \<open>The function\<close>

text \<open>
  \<open>homo_warp_grid\<close> is the function up to the sampling grid \<^verbatim>\<open>src_grid\<close> of shape
  \<open>(B,D,H*W,2)\<close> (the source lines before \<^verbatim>\<open>F.grid_sample\<close>), \<open>homo_warp\<close> the
  whole function.  The two assignments into \<^verbatim>\<open>src_grid\<close> are written as
  functional updates, and the \<^verbatim>\<open>del\<close> statements, which only unbind names, have
  no counterpart; the store model below is about them.
\<close>

definition homo_warp_grid :: "tensor \<Rightarrow> tensor \<Rightarrow> tensor \<Rightarrow> error + tensor" where
  "homo_warp_grid src_feat proj_mat depth_values =
     (if length (shape src_feat) \<noteq> 4 then Inl ValueError
      else if length (shape depth_values) < 2 then Inl IndexError
      else (let B = shape src_feat ! 0; H = shape src_feat ! 2; W = shape src_feat ! 3;
                D = shape depth_values ! 1
            in ebind (slice proj_mat 2 0 (Some 3)) (\<lambda>R.
               ebind (slice proj_mat 2 3 None) (\<lambda>T.
               ebind (permute (create_meshgrid H W) [0, 3, 1, 2]) (\<lambda>ref_grid.
               ebind (reshape ref_grid [1, 2, int (H * W)]) (\<lambda>ref_grid.
               ebind (expand ref_grid [int B, - 1, - 1]) (\<lambda>ref_grid.
               ebind (slice ref_grid 1 0 (Some 1)) (\<lambda>row.
               ebind (cat ref_grid (ones_like row) 1) (\<lambda>ref_grid.
               ebind (repeat ref_grid [1, 1, D]) (\<lambda>ref_grid_d.
               ebind (matmul R ref_grid_d) (\<lambda>rotated.
               ebind (view depth_values [int B, 1, int (D * H * W)]) (\<lambda>depths.
               ebind (tdiv T depths) (\<lambda>translated.
               ebind (tadd rotated translated) (\<lambda>src_grid_d.
               ebind (slice src_grid_d 1 0 (Some 2)) (\<lambda>xy.
               ebind (slice src_grid_d 1 (- 1) None) (\<lambda>z.
               ebind (tdiv xy z) (\<lambda>src_grid.
               ebind (select src_grid 1 0) (\<lambda>xs.
               ebind (scalar_div xs ((real W - 1) / 2)) (\<lambda>xs.
               ebind (set_select src_grid 1 0 (scalar_map (\<lambda>v. v - 1) xs)) (\<lambda>src_grid.
               ebind (select src_grid 1 1) (\<lambda>ys.
               ebind (scalar_div ys ((real H - 1) / 2)) (\<lambda>ys.
               ebind (set_select src_grid 1 1 (scalar_map (\<lambda>v. v - 1) ys)) (\<lambda>src_grid.
               ebind (permute src_grid [0, 2, 1]) (\<lambda>src_grid.
               view src_grid [int B, int D, int (H * W), 2]))))))))))))))))))))))))"

definition homo_warp :: "tensor \<Rightarrow> tensor \<Rightarrow> tensor \<Rightarrow> error + tensor" where
  "homo_warp src_feat proj_mat depth_values =
     ebind (homo_warp_grid src_feat proj_mat depth_values) (\<lambda>src_grid.
     ebind (grid_sample src_feat src_grid) (\<lambda>warped_src_feat.
     view warped_src_feat
       [int (shape src_feat ! 0), int (shape src_feat ! 1), int (shape depth_values ! 1),
        int (shape src_feat ! 2), int (shape src_feat ! 3)]))"


section \<open>\<^verbatim>\<open>homo_warp\<close> on a store\<close>

text \<open>
  torch tensors are objects that share storage: slicing, \<^verbatim>\<open>permute\<close>, \<^verbatim>\<open>expand\<close> and
  \<^verbatim>\<open>view\<close> return views of the storage of their argument, arithmetic returns a
  tensor with storage of its own, and an assignment \<^verbatim>\<open>t[:, i] = v\<close> writes into
  the storage of \<open>t\<close>.  The store is the list of the storages allocated so far,
  each holding a tensor; a reference names a storage and the view it takes of
  it.  (\<^verbatim>\<open>reshape\<close> returns a view or a copy; it is modelled as a view, the case
  with more sharing.)

  A run takes the store and returns an exception or a value, with the store it
  leaves.  Divisions are total here: where a divisor is 0 an entry that is
  infinite or NaN in torch has an arbitrary value, and the run continues as
  the program does.  Python's \<^verbatim>\<open>del\<close> unbinds local names and has no effect on
  the store.
\<close>

type_synonym store = "tensor list"

record tref =
  buf :: nat
  sel :: "tensor \<Rightarrow> error + tensor"

type_synonym 'a run = "store \<Rightarrow> (error + 'a) \<times> store"

definition sraise :: "error \<Rightarrow> 'a run" where
  "sraise e st = (Inl e, st)"

definition sbind :: "'a run \<Rightarrow> ('a \<Rightarrow> 'b run) \<Rightarrow> 'b run" where
  "sbind m f st = (case m st of (Inl e, st') \<Rightarrow> (Inl e, st') | (Inr x, st') \<Rightarrow> f x st')"

text \<open>Reading a reference gives the tensor it denotes in the current store.\<close>

definition load :: "tref \<Rightarrow> tensor run" where
  "load r st = (sel r (st ! buf r), st)"

text \<open>A result with storage of its own: an exception, or a new storage.\<close>

definition new :: "error + tensor \<Rightarrow> tref run" where
  "new res st =
     (case res of
        Inl e \<Rightarrow> (Inl e, st)
      | Inr t \<Rightarrow> (Inr \<lparr>buf = length st, sel = Inr\<rparr>, st @ [t]))"

definition new1 :: "(tensor \<Rightarrow> error + tensor) \<Rightarrow> tref \<Rightarrow> tref run" where
  "new1 f r = sbind (load r) (\<lambda>t. new (f t))"

definition new2 :: "(tensor \<Rightarrow> tensor \<Rightarrow> error + tensor) \<Rightarrow> tref \<Rightarrow> tref \<Rightarrow> tref run" where
  "new2 f a b = sbind (load a) (\<lambda>x. sbind (load b) (\<lambda>y. new (f x y)))"

text \<open>A view of a reference: the same storage, read through one more operation.\<close>

definition view_of :: "tref \<Rightarrow> (tensor \<Rightarrow> error + tensor) \<Rightarrow> tref run" where
  "view_of r f st =
     (case ebind (sel r (st ! buf r)) f of
        Inl e \<Rightarrow> (Inl e, st)
      | Inr t \<Rightarrow> (Inr \<lparr>buf = buf r, sel = (\<lambda>t. ebind (sel r t) f)\<rparr>, st))"

text \<open>
  \<^verbatim>\<open>target[:, ..., i] = v\<close> for a reference \<open>target\<close> that denotes the whole of its
  storage: the storage is overwritten.
\<close>

definition setitem :: "tref \<Rightarrow> nat \<Rightarrow> nat \<Rightarrow> tref \<Rightarrow> unit run" where
  "setitem target k i v st =
     (case sel v (st ! buf v) of
        Inl e \<Rightarrow> (Inl e, st)
      | Inr tv \<Rightarrow>
          (case set_select (st ! buf target) k i tv of
             Inl e \<Rightarrow> (Inl e, st)
           | Inr t' \<Rightarrow> (Inr (), st[buf target := t'])))"

definition tdiv_total :: "tensor \<Rightarrow> tensor \<Rightarrow> error + tensor" where
  "tdiv_total = binop (/)"

definition homo_warp_st :: "tref \<Rightarrow> tref \<Rightarrow> tref \<Rightarrow> tref run" where
  "homo_warp_st src_feat proj_mat depth_values =
     sbind (load src_feat) (\<lambda>sf.
     if length (shape sf) \<noteq> 4 then sraise ValueError else
     sbind (load depth_values) (\<lambda>dv.
     if length (shape dv) < 2 then sraise IndexError else
     (let B = shape sf ! 0; C = shape sf ! 1; H = shape sf ! 2; W = shape sf ! 3;
          D = shape dv ! 1
      in sbind (view_of proj_mat (\<lambda>t. slice t 2 0 (Some 3))) (\<lambda>R.
         sbind (view_of proj_mat (\<lambda>t. slice t 2 3 None)) (\<lambda>T.
         sbind (new (Inr (create_meshgrid H W))) (\<lambda>ref_grid.
         sbind (view_of ref_grid (\<lambda>t. permute t [0, 3, 1, 2])) (\<lambda>ref_grid.
         sbind (view_of ref_grid (\<lambda>t. reshape t [1, 2, int (H * W)])) (\<lambda>ref_grid.
         sbind (view_of ref_grid (\<lambda>t. expand t [int B, - 1, - 1])) (\<lambda>ref_grid.
         sbind (view_of ref_grid (\<lambda>t. slice t 1 0 (Some 1))) (\<lambda>row.
         sbind (new1 (\<lambda>t. Inr (ones_like t)) row) (\<lambda>ones.
         sbind (new2 (\<lambda>a b. cat a b 1) ref_grid ones) (\<lambda>ref_grid.
         sbind (new1 (\<lambda>t. repeat t [1, 1, D]) ref_grid) (\<lambda>ref_grid_d.
         sbind (new2 matmul R ref_grid_d) (\<lambda>rotated.
         sbind (view_of depth_values (\<lambda>t. view t [int B, 1, int (D * H * W)])) (\<lambda>depths.
         sbind (new2 tdiv_total T depths) (\<lambda>translated.
         sbind (new2 tadd rotated translated) (\<lambda>src_grid_d.
         sbind (view_of src_grid_d (\<lambda>t. slice t 1 0 (Some 2))) (\<lambda>xy.
         sbind (view_of src_grid_d (\<lambda>t. slice t 1 (- 1) None)) (\<lambda>z.
         sbind (new2 tdiv_total xy z) (\<lambda>src_grid.
         sbind (view_of src_grid (\<lambda>t. select t 1 0)) (\<lambda>xs.
         sbind (new1 (\<lambda>t. Inr (scalar_map (\<lambda>v. v / ((real W - 1) / 2)) t)) xs) (\<lambda>xs.
         sbind (new1 (\<lambda>t. Inr (scalar_map (\<lambda>v. v - 1) t)) xs) (\<lambda>xs.
         sbind (setitem src_grid 1 0 xs) (\<lambda>_.
         sbind (view_of src_grid (\<lambda>t. select t 1 1)) (\<lambda>ys.
         sbind (new1 (\<lambda>t. Inr (scalar_map (\<lambda>v. v / ((real H - 1) / 2)) t)) ys) (\<lambda>ys.
         sbind (new1 (\<lambda>t. Inr (scalar_map (\<lambda>v. v - 1) t)) ys) (\<lambda>ys.
         sbind (setitem src_grid 1 1 ys) (\<lambda>_.
         sbind (view_of src_grid (\<lambda>t. permute t [0, 2, 1])) (\<lambda>src_grid.
         sbind (view_of src_grid (\<lambda>t. view t [int B, int D, int (H * W), 2])) (\<lambda>src_grid.
         sbind (new2 grid_sample src_feat src_grid) (\<lambda>warped_src_feat.
         view_of warped_src_feat
           (\<lambda>t. view t [int B, int C, int D, int H, int W]))))))))))))))))))))))))))))))))"

text \<open>
  A store \<open>st\<close> is an extension of \<open>st0\<close> when it holds the storages of \<open>st0\<close> unchanged, and
  maybe more.  A run preserves \<open>st0\<close> when it leaves an extension of \<open>st0\<close>
  whenever it starts in one.
\<close>

definition extension :: "store \<Rightarrow> store \<Rightarrow> bool" where
  "extension st0 st = (length st0 \<le> length st \<and> take (length st0) st = st0)"

definition preserves :: "store \<Rightarrow> ('a \<Rightarrow> bool) \<Rightarrow> 'a run \<Rightarrow> bool" where
  "preserves st0 P m =
     (\<forall>st. extension st0 st \<longrightarrow>
        extension st0 (snd (m st)) \<and> (\<forall>x. fst (m st) = Inr x \<longrightarrow> P x))"

section \<open>Index arithmetic\<close>

lemma ravel_less:
  "list_all2 (<) idx sh \<Longrightarrow> ravel sh idx < prod_list sh"
proof (induction sh idx rule: ravel.induct)
  case (1 s sh i idx)
  then have i: "i < s" and rest: "ravel sh idx < prod_list sh" by simp_all
  have "i * prod_list sh + ravel sh idx < i * prod_list sh + prod_list sh"
    using rest by simp
  also have "\<dots> = Suc i * prod_list sh" by simp
  also have "\<dots> \<le> s * prod_list sh"
    using i by (intro mult_le_mono1) simp
  finally show ?case by simp
qed (simp_all add: list_all2_Cons1 list_all2_Cons2)

lemma unravel_ravel:
  "list_all2 (<) idx sh \<Longrightarrow> unravel sh (ravel sh idx) = idx"
proof (induction sh idx rule: ravel.induct)
  case (1 s sh i idx)
  then have rest: "list_all2 (<) idx sh" by simp
  have lt: "ravel sh idx < prod_list sh" by (rule ravel_less [OF rest])
  then show ?case using 1 by simp
qed (simp_all add: list_all2_Cons1 list_all2_Cons2)

lemma tget_tab:
  "list_all2 (<) idx sh \<Longrightarrow> tget (tab dt sh f) idx = f idx"
  by (simp add: tget_def tab_def ravel_less unravel_ravel)

lemma wf_tab: "wf (tab dt sh f)"
  by (simp add: wf_def tab_def)

lemma shape_tab: "shape (tab dt sh f) = sh"
  by (simp add: tab_def)

lemma dtype_tab: "dtype (tab dt sh f) = dt"
  by (simp add: tab_def)

lemma tget_scalar_map:
  "wf t \<Longrightarrow> list_all2 (<) idx (shape t) \<Longrightarrow> tget (scalar_map f t) idx = f (tget t idx)"
  using ravel_less [of idx "shape t"] by (simp add: tget_def scalar_map_def wf_def)

lemma shape_scalar_map: "shape (scalar_map f t) = shape t"
  by (simp add: scalar_map_def)

lemma wf_scalar_map: "wf (scalar_map f t) = wf t"
  by (simp add: scalar_map_def wf_def)

lemma binop_Some:
  "broadcast_shapes (shape a) (shape b) = Some sh \<Longrightarrow>
   binop f a b = Inr (tab (promote_types (dtype a) (dtype b)) sh
                 (\<lambda>idx. f (tget a (bidx (shape a) idx)) (tget b (bidx (shape b) idx))))"
  by (simp add: binop_def)

lemma binop_None:
  "broadcast_shapes (shape a) (shape b) = None \<Longrightarrow> binop f a b = Inl RuntimeError"
  by (simp add: binop_def)

lemma bs1: "broadcast_shapes [B, 1, H, W] [1, n, 1, 1] = Some [B, n, H, W]"
  by (simp add: broadcast_shapes_def)

lemma arange_reshape:
  "0 \<le> n \<Longrightarrow> ebind (arange n dt) (\<lambda>ar. ebind (reshape ar [1, - 1, 1, 1]) f)
     = f \<lparr>shape = [1, nat n, 1, 1], dtype = dt, data = map real [0..<nat n]\<rparr>"
  by (simp add: arange_def reshape_def ebind_def)




lemma filter_map_int: "filter (\<lambda>d. d \<noteq> - 1) (map int sh) = map int sh"
  by (induction sh) auto

lemma filter_map_int2: "filter (\<lambda>d. d = - 1) (map int sh) = []"
  by (induction sh) auto

lemma list_ex_map_int: "\<not> list_ex (\<lambda>d. d < - 1) (map int sh)" "\<not> list_ex (\<lambda>d. d = - 1) (map int sh)"
  by (induction sh) auto

lemma view_trailing:
  "view t (map int (shape t) @ [1, 1]) = Inr (t\<lparr>shape := shape t @ [1, 1]\<rparr>)"
  by (simp add: view_def reshape_def filter_map_int filter_map_int2 list_ex_map_int comp_def)


lemma regression_view:
  "(if length (shape t) \<le> 2 then view t (map int (shape t) @ [1, 1]) else Inr t)
     = Inr (trailing_view t)"
  by (simp add: view_trailing trailing_view_def)

lemma broadcast_rev_length:
  "broadcast_rev xs ys = Some zs \<Longrightarrow> length zs = max (length xs) (length ys)"
  by (induction xs ys arbitrary: zs rule: broadcast_rev.induct) (auto split: if_splits)

lemma broadcast_shapes_length:
  "broadcast_shapes a b = Some s \<Longrightarrow> length s = max (length a) (length b)"
  by (auto simp add: broadcast_shapes_def dest: broadcast_rev_length)

lemma ebind_Inr: "ebind (Inr x) f = f x"
  by (simp add: ebind_def)

lemma ebind_Inl: "ebind (Inl e) f = Inl e"
  by (simp add: ebind_def)

lemma shape_trailing_view_ge2: "2 \<le> length (shape (trailing_view t))"
  by (simp add: trailing_view_def)

lemma dtype_trailing_view: "dtype (trailing_view t) = dtype t"
  by (simp add: trailing_view_def)

lemma depth_regression_unfold:
  "depth_regression p dv =
     ebind (tmul p (trailing_view dv)) (\<lambda>pd.
     ebind (tsum pd 1) (\<lambda>depth. Inr (to_dtype depth (dtype dv))))"
  unfolding depth_regression_def regression_view ebind_Inr dtype_trailing_view ..






lemma bget_rank2:
  "shape dv = [B, D] \<Longrightarrow> b < B \<Longrightarrow> d < D \<Longrightarrow> bget (trailing_view dv) [b, d, h, w] = tget dv [b, d]"
  by (auto simp add: bget_def trailing_view_def bidx_def tget_def)


lemma bs_rank1: "broadcast_shapes [B, D, H, W] [D, 1, 1] = Some [B, D, H, W]"
  by (simp add: broadcast_shapes_def)

lemma bs_rank2: "broadcast_shapes [B, D, H, W] [B, D, 1, 1] = Some [B, D, H, W]"
  by (simp add: broadcast_shapes_def)









lemma get_depth_values_scalar_entries:
  assumes "wf current_depth" "shape current_depth = [B, 1, H, W]" "0 < n"
  shows "\<exists>t. get_depth_values current_depth n (PyFloat i) = Inr t \<and> wf t
           \<and> shape t = [B, nat n, H, W]
           \<and> (\<forall>b<B. \<forall>d<nat n. \<forall>h<H. \<forall>w<W.
                 tget t [b, d, h, w]
                   = tget current_depth [b, 0, h, w] - of_int n / 2 * i + real d * i)"
proof -
  define dm where "dm = scalar_map (\<lambda>x. x - of_int n / 2 * i) current_depth"
  define st where "st = scalar_map (\<lambda>x. i * x)
    \<lparr>shape = [1, nat n, 1, 1], dtype = dtype current_depth, data = map real [0..<nat n]\<rparr>"
  define t where "t = tab (promote_types (dtype dm) (dtype st)) [B, nat n, H, W]
                 (\<lambda>idx. tget dm (bidx (shape dm) idx) + tget st (bidx (shape st) idx))"
  have n0: "0 \<le> n" using assms(3) by simp
  have step: "get_depth_values current_depth n (PyFloat i) = tadd dm st"
    unfolding get_depth_values_def dm_def st_def
    by (simp only: py_value.case Let_def arange_reshape [OF n0])
  have sh_dm: "shape dm = [B, 1, H, W]"
    by (simp add: dm_def shape_scalar_map assms(2))
  have sh_st: "shape st = [1, nat n, 1, 1]"
    by (simp add: st_def shape_scalar_map)
  have bs: "broadcast_shapes (shape dm) (shape st) = Some [B, nat n, H, W]"
    unfolding sh_dm sh_st by (rule bs1)
  have eq: "get_depth_values current_depth n (PyFloat i) = Inr t"
    unfolding step tadd_def t_def by (rule binop_Some [OF bs])
  have vals: "tget t [b, d, h, w] = tget current_depth [b, 0, h, w] - of_int n / 2 * i + real d * i"
    if "b < B" "d < nat n" "h < H" "w < W" for b d h w
  proof -
    have 1: "tget dm (bidx (shape dm) [b, d, h, w]) = tget current_depth [b, 0, h, w] - of_int n / 2 * i"
      unfolding sh_dm using that assms by (auto simp add: dm_def bidx_def tget_scalar_map)
    have 2: "tget st (bidx (shape st) [b, d, h, w]) = i * real d"
      unfolding sh_st using that by (auto simp add: st_def bidx_def tget_def scalar_map_def)
    have "tget t [b, d, h, w] = tget dm (bidx (shape dm) [b, d, h, w]) + tget st (bidx (shape st) [b, d, h, w])"
      unfolding t_def using that by (simp add: tget_tab)
    then show ?thesis unfolding 1 2 by (simp add: mult.commute)
  qed
  show ?thesis
    using eq vals by (intro exI [of _ t]) (simp add: t_def wf_tab shape_tab)
qed

text \<open>
  In exact arithmetic the depth values of a pixel increase strictly with the
  depth index when the interval is positive.  (This is a statement about real
  entries: rounded entries can coincide when the depth is large and the
  interval small.)
\<close>

lemma get_depth_values_increasing_exact:
  assumes "wf current_depth" "shape current_depth = [B, 1, H, W]" "2 \<le> n" "0 < i"
    and "get_depth_values current_depth n (PyFloat i) = Inr t"
    and "b < B" "h < H" "w < W" "d < d'" "d' < nat n"
  shows "tget t [b, d, h, w] < tget t [b, d', h, w]"
proof -
  have n: "0 < n" using assms(3) by simp
  from get_depth_values_scalar_entries [OF assms(1,2) n, of i] assms(5)
  have v: "\<forall>b<B. \<forall>d<nat n. \<forall>h<H. \<forall>w<W.
             tget t [b, d, h, w] = tget current_depth [b, 0, h, w] - of_int n / 2 * i + real d * i"
    by auto
  have "d < nat n" using assms(9,10) by simp
  then have "tget t [b, d, h, w] = tget current_depth [b, 0, h, w] - of_int n / 2 * i + real d * i"
    "tget t [b, d', h, w] = tget current_depth [b, 0, h, w] - of_int n / 2 * i + real d' * i"
    using v assms(6-8,10) by simp_all
  moreover have "real d * i < real d' * i" using assms(4,9) by simp
  ultimately show ?thesis by simp
qed


section \<open>Lemmas about \<^verbatim>\<open>homo_warp\<close>\<close>














text \<open>On an example, the run on a store returns the tensor of the value model.\<close>

lemma homo_warp_st_example:
  "(case homo_warp_st \<lparr>buf = 0, sel = Inr\<rparr> \<lparr>buf = 1, sel = Inr\<rparr> \<lparr>buf = 2, sel = Inr\<rparr>
         [\<lparr>shape = [1, 1, 2, 2], dtype = Float32, data = [1, 2, 3, 4]\<rparr>,
          \<lparr>shape = [1, 3, 4], dtype = Float32,
             data = [1, 0, - 3 / 2, 0, 0, 1, 0, 0, 0, 0, 1, 0]\<rparr>,
          full Float32 [1, 1, 2, 2] 5] of
      (Inl e, st') \<Rightarrow> Inl e
    | (Inr r, st') \<Rightarrow> fst (load r st'))
   = homo_warp \<lparr>shape = [1, 1, 2, 2], dtype = Float32, data = [1, 2, 3, 4]\<rparr>
       \<lparr>shape = [1, 3, 4], dtype = Float32, data = [1, 0, - 3 / 2, 0, 0, 1, 0, 0, 0, 0, 1, 0]\<rparr>
       (full Float32 [1, 1, 2, 2] 5)"
  by code_simp

text \<open>
  With the identity as rotation and no translation every reference pixel
  projects to itself, and the value model returns the source features at both
  depth hypotheses of this example.
\<close>

lemma homo_warp_identity_example:
  "homo_warp \<lparr>shape = [1, 2, 2, 3], dtype = Float32, data = map real [0..<12]\<rparr>
       \<lparr>shape = [1, 3, 4], dtype = Float32, data = [1, 0, 0, 0, 0, 1, 0, 0, 0, 0, 1, 0]\<rparr>
       (full Float32 [1, 2, 2, 3] 5)
     = Inr \<lparr>shape = [1, 2, 2, 2, 3], dtype = Float32,
            data = map real ([0..<6] @ [0..<6] @ [6..<12] @ [6..<12])\<rparr>"
  by code_simp

section \<open>Lemmas about the store\<close>

lemma ext_refl: "extension st st"
  by (simp add: extension_def)

lemma ext_append: "extension st0 st \<Longrightarrow> extension st0 (st @ [t])"
  by (auto simp add: extension_def)

lemma ext_update: "extension st0 st \<Longrightarrow> length st0 \<le> b \<Longrightarrow> extension st0 (st[b := t])"
  by (auto simp add: extension_def)

lemma ext_nth: "extension st0 st \<Longrightarrow> b < length st0 \<Longrightarrow> st ! b = st0 ! b"
  by (metis extension_def nth_take)

lemma preserves_sbind:
  assumes "preserves st0 P m" "\<And>x. P x \<Longrightarrow> preserves st0 Q (f x)"
  shows "preserves st0 Q (sbind m f)"
  unfolding preserves_def
proof (intro allI impI)
  fix st assume e: "extension st0 st"
  obtain r st1 where m: "m st = (r, st1)" by (cases "m st")
  from assms(1) e m have e1: "extension st0 st1" and p: "\<And>x. r = Inr x \<Longrightarrow> P x"
    by (auto simp add: preserves_def)
  show "extension st0 (snd (sbind m f st)) \<and> (\<forall>x. fst (sbind m f st) = Inr x \<longrightarrow> Q x)"
  proof (cases r)
    case (Inl err)
    then show ?thesis using m e1 by (simp add: sbind_def)
  next
    case (Inr x)
    from assms(2) [OF p [OF Inr]] e1
    have "extension st0 (snd (f x st1)) \<and> (\<forall>y. fst (f x st1) = Inr y \<longrightarrow> Q y)"
      by (simp add: preserves_def)
    then show ?thesis using m Inr by (simp add: sbind_def)
  qed
qed

lemma preserves_sraise: "preserves st0 Q (sraise e)"
  by (simp add: preserves_def sraise_def)

lemma preserves_if:
  "(c \<Longrightarrow> preserves st0 Q a) \<Longrightarrow> (\<not> c \<Longrightarrow> preserves st0 Q b)
     \<Longrightarrow> preserves st0 Q (if c then a else b)"
  by simp

lemma preserves_load: "preserves st0 (\<lambda>t. True) (load r)"
  by (simp add: preserves_def load_def)

lemma preserves_new: "preserves st0 (\<lambda>r. length st0 \<le> buf r) (new res)"
  by (auto simp add: preserves_def new_def ext_append extension_def split: sum.splits)

lemma preserves_new1: "preserves st0 (\<lambda>r. length st0 \<le> buf r) (new1 f a)"
  unfolding new1_def by (rule preserves_sbind [OF preserves_load]) (rule preserves_new)

lemma preserves_new2: "preserves st0 (\<lambda>r. length st0 \<le> buf r) (new2 f a b)"
  unfolding new2_def
  by (rule preserves_sbind [OF preserves_load], rule preserves_sbind [OF preserves_load])
     (rule preserves_new)

lemma preserves_view_of: "preserves st0 (\<lambda>r'. buf r' = buf r) (view_of r f)"
  by (auto simp add: preserves_def view_of_def split: sum.splits)

lemma preserves_view_of_any: "preserves st0 (\<lambda>r'. True) (view_of r f)"
  by (auto simp add: preserves_def view_of_def split: sum.splits)

lemma preserves_setitem:
  "length st0 \<le> buf target \<Longrightarrow> preserves st0 (\<lambda>u. True) (setitem target k i v)"
  by (auto simp add: preserves_def setitem_def ext_update split: sum.splits)

lemma homo_warp_st_preserves:
  "preserves st0 (\<lambda>r. True) (homo_warp_st src_feat proj_mat depth_values)"
  unfolding homo_warp_st_def Let_def
  apply (rule preserves_sbind [OF preserves_load])
  apply (rule preserves_if, rule preserves_sraise)
  apply (rule preserves_sbind [OF preserves_load])
  apply (rule preserves_if, rule preserves_sraise)
  apply (rule preserves_sbind,
         (rule preserves_new preserves_new1 preserves_new2 preserves_view_of
           | (rule preserves_setitem, simp)))+
  apply (rule preserves_view_of_any)
  done

section \<open>Properties of \<^verbatim>\<open>get_depth_values\<close>\<close>








section \<open>Properties of \<^verbatim>\<open>depth_regression\<close>\<close>



text \<open>
  Claim C8 says that \<^verbatim>\<open>depth_values\<close> of a rank other than at most 2 or exactly 4
  is rejected, a rank-3 argument in particular.  The function only reshapes
  arguments of rank at most 2 and multiplies: a rank-3 argument that broadcasts
  against \<open>p\<close> is computed with.
\<close>

theorem depth_regression_rank3_accepted:
  "length (shape \<lparr>shape = [2, 1, 1], dtype = Float32, data = [4, 8]\<rparr>) = 3
   \<and> depth_regression \<lparr>shape = [1, 2, 1, 1], dtype = Float32, data = [1 / 4, 3 / 4]\<rparr>
         \<lparr>shape = [2, 1, 1], dtype = Float32, data = [4, 8]\<rparr>
       = Inr \<lparr>shape = [1, 1, 1], dtype = Float32, data = [7]\<rparr>"
  by code_simp

text \<open>
  Claim C8, amended.  \<open>depth_regression\<close> fails, with torch's shape error, exactly
  when \<open>p\<close> and \<^verbatim>\<open>depth_values\<close> (given two trailing axes of size 1 when its rank
  is at most 2) are not broadcast-compatible; the rank of \<^verbatim>\<open>depth_values\<close> is not
  checked otherwise.
\<close>

theorem depth_regression_fails_iff:
  "depth_regression p depth_values = Inl RuntimeError
     \<longleftrightarrow> broadcast_shapes (shape p) (shape (trailing_view depth_values)) = None"
proof (cases "broadcast_shapes (shape p) (shape (trailing_view depth_values))")
  case None
  then have "tmul p (trailing_view depth_values) = Inl RuntimeError"
    unfolding tmul_def by (rule binop_None)
  then show ?thesis using None by (simp add: depth_regression_unfold ebind_Inl)
next
  case (Some s)
  from broadcast_shapes_length [OF Some] shape_trailing_view_ge2 [of depth_values]
  have len: "1 < length s" by simp
  have "tmul p (trailing_view depth_values) = Inr (tab (promote_types (dtype p) (dtype (trailing_view depth_values))) s
          (\<lambda>idx. tget p (bidx (shape p) idx) * tget (trailing_view depth_values) (bidx (shape (trailing_view depth_values)) idx)))"
    unfolding tmul_def by (rule binop_Some [OF Some])
  then show ?thesis using Some len
    by (simp add: depth_regression_unfold ebind_Inr tsum_def shape_tab)
qed

theorem depth_regression_fails_iff_witness:
  "depth_regression \<lparr>shape = [1, 2, 1, 1], dtype = Float32, data = [1 / 4, 3 / 4]\<rparr>
         \<lparr>shape = [3], dtype = Float32, data = [4, 8, 9]\<rparr> = Inl RuntimeError
   \<and> broadcast_shapes [1, 2, 1, 1] [3, 1, 1] = None"
  using depth_regression_fails_iff
          [of "\<lparr>shape = [1, 2, 1, 1], dtype = Float32, data = [1 / 4, 3 / 4]\<rparr>"
              "\<lparr>shape = [3], dtype = Float32, data = [4, 8, 9]\<rparr>"]
  by (simp add: trailing_view_def broadcast_shapes_def)

section \<open>Properties of \<^verbatim>\<open>AttentionBranch\<close>\<close>



section \<open>Properties of \<^verbatim>\<open>homo_warp\<close>\<close>




text \<open>
  Claim C9.  A call of \<open>homo_warp\<close> leaves every storage that existed before the
  call as it was, whether the call returns or raises: the two assignments write
  into the storage of \<^verbatim>\<open>src_grid\<close>, which the division before them allocated.
  The tensors that \<^verbatim>\<open>proj_mat\<close> and \<^verbatim>\<open>depth_values\<close> denote after the call are
  therefore those they denoted before it.
\<close>

theorem homo_warp_st_frame:
  assumes "homo_warp_st src_feat proj_mat depth_values st = (res, st')"
  shows "length st \<le> length st' \<and> (\<forall>b<length st. st' ! b = st ! b)
         \<and> (buf proj_mat < length st
               \<longrightarrow> fst (load proj_mat st') = fst (load proj_mat st))
         \<and> (buf depth_values < length st
               \<longrightarrow> fst (load depth_values st') = fst (load depth_values st))"
proof -
  have "extension st (snd (homo_warp_st src_feat proj_mat depth_values st))"
    using homo_warp_st_preserves [of st src_feat proj_mat depth_values] ext_refl [of st]
    by (simp add: preserves_def)
  then have e: "extension st st'" using assms by simp
  then have same: "st' ! b = st ! b" if "b < length st" for b
    using that by (rule ext_nth)
  from e have "length st \<le> length st'" by (simp add: extension_def)
  then show ?thesis using same by (simp add: load_def)
qed

theorem homo_warp_st_frame_witness:
  "snd (homo_warp_st \<lparr>buf = 0, sel = Inr\<rparr> \<lparr>buf = 1, sel = Inr\<rparr> \<lparr>buf = 2, sel = Inr\<rparr>
         [\<lparr>shape = [1, 1, 2, 2], dtype = Float32, data = [1, 2, 3, 4]\<rparr>,
          \<lparr>shape = [1, 3, 4], dtype = Float32,
             data = [1, 0, - 3 / 2, 0, 0, 1, 0, 0, 0, 0, 1, 0]\<rparr>,
          full Float32 [1, 1, 2, 2] 5]) ! 1
     = \<lparr>shape = [1, 3, 4], dtype = Float32, data = [1, 0, - 3 / 2, 0, 0, 1, 0, 0, 0, 0, 1, 0]\<rparr>
   \<and> snd (homo_warp_st \<lparr>buf = 0, sel = Inr\<rparr> \<lparr>buf = 1, sel = Inr\<rparr> \<lparr>buf = 2, sel = Inr\<rparr>
         [\<lparr>shape = [1, 1, 2, 2], dtype = Float32, data = [1, 2, 3, 4]\<rparr>,
          \<lparr>shape = [1, 3, 4], dtype = Float32,
             data = [1, 0, - 3 / 2, 0, 0, 1, 0, 0, 0, 0, 1, 0]\<rparr>,
          full Float32 [1, 1, 2, 2] 5]) ! 2
     = full Float32 [1, 1, 2, 2] 5"
proof -
  define st where "st = [\<lparr>shape = [1, 1, 2, 2], dtype = Float32, data = [1, 2, 3, 4]\<rparr>,
          \<lparr>shape = [1, 3, 4], dtype = Float32,
             data = [1, 0, - 3 / 2, 0, 0, 1, 0, 0, 0, 0, 1, 0]\<rparr>,
          full Float32 [1, 1, 2, 2] 5]"
  define run where
    "run = homo_warp_st \<lparr>buf = 0, sel = Inr\<rparr> \<lparr>buf = 1, sel = Inr\<rparr> \<lparr>buf = 2, sel = Inr\<rparr> st"
  have "run = (fst run, snd run)" by simp
  from homo_warp_st_frame [OF this [unfolded run_def]]
  have "\<forall>b<length st. snd run ! b = st ! b" by (simp add: run_def)
  then have "snd run ! 1 = st ! 1" "snd run ! 2 = st ! 2" by (simp_all add: st_def)
  then show ?thesis unfolding run_def st_def by simp
qed

end
